theory Spec2Isabelle
  imports Main
begin

section \<open>The AI Data Workbench (main.py): data model\<close>

text \<open>
  The application keeps uploaded tables in the module-level dictionary \<open>df_cache\<close> and
  serves them through seven HTTP handlers. The handlers are modelled as functions from the
  cache (and the request) to a response and the cache afterwards. Everything the handlers
  call outside main.py (the CSV reader, the completion service, the JSON parser, the
  interpreter running generated code, the chart and report libraries) is a field of the
  record \<open>world\<close>: a call that can raise returns a sum, \<open>Inl\<close> the exception.

  Python strings are modelled as \<open>string\<close>; a character stands for a code point below 256.
\<close>

subsection \<open>Exceptions and responses\<close>

text \<open>
  An exception is its class name and the text \<open>str(e)\<close> gives. Only instances of
  \<open>Exception\<close> are modelled: they are what the handlers' \<open>except Exception\<close> clauses name.
\<close>

datatype pyexc = PyExc (exc_class: string) (exc_str: string)

text \<open>
  The three static page templates of main.py (landing page, dashboard, chat page) are kept
  symbolic; the dashboard template interpolates the file id into its three links. Every
  other body is the markup string the handler builds.
\<close>

datatype content = LandingPage | DashboardPage string | ChatPage | Markup string

text \<open>
  \<open>RedirectResponse\<close> carries its url and status code (307 unless the handler passes one);
  a dictionary returned by a handler is sent as a JSON object with status 200;
  \<open>Unhandled\<close> is an exception leaving the handler, which the framework answers with
  status 500.
\<close>

datatype response =
    RedirectResponse string nat
  | HTMLResponse content
  | JSONResponse "(string \<times> string) list"
  | Unhandled pyexc

fun status_code :: "response \<Rightarrow> nat" where
  "status_code (RedirectResponse url st) = st"
| "status_code (HTMLResponse c) = 200"
| "status_code (JSONResponse d) = 200"
| "status_code (Unhandled e) = 500"

subsection \<open>Tables and the session cache\<close>

text \<open>
  A DataFrame is its columns (name and dtype class) and its rows; a cell is \<open>None\<close> when
  the value is missing (NaN) and \<open>Some v\<close> otherwise. The type \<open>'v\<close> of cell values is left
  open; two cells are equal when pandas counts them as the same value.
\<close>

datatype dtype = Number | Object | Category | OtherDtype

record 'v dataframe =
  columns :: "(string \<times> dtype) list"
  rows :: "'v option list list"

type_synonym 'v cache = "string \<rightharpoonup> 'v dataframe"

text \<open>\<open>df.dropna()\<close>: the rows with no missing cell, in order.\<close>

definition complete_row :: "'v option list \<Rightarrow> bool" where
  "complete_row r = (None \<notin> set r)"

definition dropna :: "'v dataframe \<Rightarrow> 'v dataframe" where
  "dropna df = df\<lparr>rows := filter complete_row (rows df)\<rparr>"

text \<open>
  \<open>df.drop_duplicates()\<close> (keep = first): a row is dropped when an equal row stands earlier
  in the table. \<open>keep_first seen rs\<close> walks the rows with the rows already met.
\<close>

fun keep_first :: "'a list \<Rightarrow> 'a list \<Rightarrow> 'a list" where
  "keep_first seen [] = []"
| "keep_first seen (r # rs) =
     (if r \<in> set seen then keep_first seen rs else r # keep_first (r # seen) rs)"

definition drop_duplicates :: "'v dataframe \<Rightarrow> 'v dataframe" where
  "drop_duplicates df = df\<lparr>rows := keep_first [] (rows df)\<rparr>"

subsection \<open>Python values read from JSON\<close>

text \<open>
  What \<open>json.loads\<close> returns. A float is kept by its literal; a dict is the list of its
  items in insertion order, with distinct keys.
\<close>

datatype json =
    JNull
  | JBool bool
  | JInt int
  | JFloat string
  | JString string
  | JArray "json list"
  | JObject "(string \<times> json) list"

subsection \<open>Names visible to generated code\<close>

text \<open>
  The two dictionaries an \<open>exec\<close> or \<open>eval\<close> call runs in, by the names they bind.
\<close>

record scope =
  scope_globals :: "string list"
  scope_locals :: "string list"


subsection \<open>External collaborators\<close>

text \<open>
  \<^item> \<open>utf8_decode\<close>: \<open>str(contents, 'utf-8')\<close>.
  \<^item> \<open>read_csv\<close>: \<open>pd.read_csv(io.StringIO(...))\<close>.
  \<^item> \<open>ai_model\<close>: the module-level \<open>ai_model\<close>, \<open>None\<close> when configuration failed at
    start-up; otherwise \<open>generate_content\<close>, which raises or returns a response whose
    \<open>.text\<close> property raises or is a string.
  \<^item> \<open>json_loads\<close>: \<open>json.loads\<close>.
  \<^item> \<open>py_str\<close>: \<open>str()\<close> of a value that is not a string (an f-string formats with it).
  \<^item> \<open>py_repr\<close>: \<open>repr()\<close> of a list of column names.
  \<^item> \<open>eval_code\<close>: \<open>eval(code)\<close> in the given scope. The DataFrame bound to \<open>df\<close> is the
    very object stored in the cache under the file id (Python binds by reference), so the
    call is told the file id and the cache, and returns the cache it leaves.
  \<^item> \<open>to_html\<close>: \<open>fig.to_html(full_html=False, include_plotlyjs="cdn")\<close> on the object the
    expression evaluated to.
  \<^item> \<open>exec_code\<close>: \<open>exec(code, globals, locals)\<close> with the output-capturing print; \<open>Inr\<close>
    is what \<open>output_stream.getvalue()\<close> holds after it returned.
  \<^item> \<open>import_ProfileReport\<close>: \<open>from ydata_profiling import ProfileReport\<close>, which raises
    or gives the report generator \<open>ProfileReport(df, title=...).to_html()\<close>.
\<close>

record ('v, 'f) world =
  utf8_decode :: "string \<Rightarrow> pyexc + string"
  read_csv :: "string \<Rightarrow> pyexc + 'v dataframe"
  ai_model :: "(string \<Rightarrow> pyexc + (pyexc + string)) option"
  json_loads :: "string \<Rightarrow> pyexc + json"
  py_str :: "json \<Rightarrow> string"
  py_repr :: "string list \<Rightarrow> string"
  eval_code :: "scope \<Rightarrow> string \<Rightarrow> string \<Rightarrow> 'v cache \<Rightarrow> (pyexc + 'f) \<times> 'v cache"
  to_html :: "'f \<Rightarrow> pyexc + string"
  exec_code :: "scope \<Rightarrow> string \<Rightarrow> string \<Rightarrow> 'v cache \<Rightarrow> (pyexc + string) \<times> 'v cache"
  import_ProfileReport :: "pyexc + ('v dataframe \<Rightarrow> pyexc + string)"

section \<open>Upload\<close>

text \<open>
  \<open>upload_and_process\<close>: decode, parse, clean, store under a fresh id, redirect with 303.
  \<open>file_id\<close> is the string \<open>str(uuid.uuid4())\<close> returned. Neither the decoding nor the
  parsing stands in a \<open>try\<close>: an exception of either leaves the handler.
\<close>

definition upload_and_process ::
  "('v, 'f) world \<Rightarrow> string \<Rightarrow> string \<Rightarrow> 'v cache \<Rightarrow> response \<times> 'v cache" where
  "upload_and_process w contents file_id df_cache =
     (case utf8_decode w contents of
        Inl e \<Rightarrow> (Unhandled e, df_cache)
      | Inr s \<Rightarrow>
          (case read_csv w s of
             Inl e \<Rightarrow> (Unhandled e, df_cache)
           | Inr df0 \<Rightarrow>
               let df = drop_duplicates (dropna df0) in
               (RedirectResponse (''/dashboard/'' @ file_id) 303, df_cache(file_id \<mapsto> df))))"

section \<open>String operations of the Python runtime\<close>

text \<open>\<open>str.strip()\<close>: whitespace is removed at both ends.\<close>

definition py_isspace :: "char \<Rightarrow> bool" where
  "py_isspace c = (of_char c \<in> set [9, 10, 11, 12, 13, 28, 29, 30, 31, 32, 133, 160 :: nat])"

definition strip :: "string \<Rightarrow> string" where
  "strip s = rev (dropWhile py_isspace (rev (dropWhile py_isspace s)))"

text \<open>
  \<open>str.replace(old, new)\<close>: the occurrences of \<open>old\<close> are replaced from left to right,
  without overlap. With an empty \<open>old\<close>, Python puts \<open>new\<close> before every character and at
  the end.
\<close>

function replace_from :: "string \<Rightarrow> string \<Rightarrow> string \<Rightarrow> string" where
  "replace_from old new [] = []"
| "replace_from old new (c # cs) =
     (if old \<noteq> [] \<and> take (length old) (c # cs) = old
      then new @ replace_from old new (drop (length old) (c # cs))
      else c # replace_from old new cs)"
  by pat_completeness auto
termination
  by (relation "measure (\<lambda>(old, new, s). length s)") auto

definition replace :: "string \<Rightarrow> string \<Rightarrow> string \<Rightarrow> string" where
  "replace old new s =
     (if old = [] then new @ concat (map (\<lambda>c. c # new) s) else replace_from old new s)"

text \<open>\<open>str(n)\<close> of a natural number, as an f-string formats \<open>df.shape[0]\<close>.\<close>

function str_nat :: "nat \<Rightarrow> string" where
  "str_nat n =
     (if n < 10 then [''0123456789'' ! n]
      else str_nat (n div 10) @ [''0123456789'' ! (n mod 10)])"
  by pat_completeness auto
termination
  by (relation "measure id") auto

text \<open>A text between single quotes, as \<open>repr\<close> and the interpreter's messages write one.\<close>

definition quoted :: "string \<Rightarrow> string" where
  "quoted s = [CHR 0x27] @ s @ [CHR 0x27]"

section \<open>Python values: subscripting, iteration, formatting\<close>

definition type_name :: "json \<Rightarrow> string" where
  "type_name v =
     (case v of
        JNull \<Rightarrow> ''NoneType''
      | JBool b \<Rightarrow> ''bool''
      | JInt i \<Rightarrow> ''int''
      | JFloat f \<Rightarrow> ''float''
      | JString s \<Rightarrow> ''str''
      | JArray xs \<Rightarrow> ''list''
      | JObject kvs \<Rightarrow> ''dict'')"

text \<open>
  \<open>v[key]\<close> for a string key: a dict answers with the value or a KeyError (whose text is
  the key's \<open>repr\<close>: the key in single quotes, for the two keys the handler asks for);
  every other value raises a TypeError. The TypeError texts are CPython 3.12's; the
  handlers only ever depend on the class.
\<close>

definition getitem :: "json \<Rightarrow> string \<Rightarrow> pyexc + json" where
  "getitem v key =
     (case v of
        JObject kvs \<Rightarrow>
          (case map_of kvs key of
             Some x \<Rightarrow> Inr x
           | None \<Rightarrow> Inl (PyExc ''KeyError'' (quoted key)))
      | JArray xs \<Rightarrow>
          Inl (PyExc ''TypeError'' ''list indices must be integers or slices, not str'')
      | JString s \<Rightarrow>
          Inl (PyExc ''TypeError'' (''string indices must be integers, not '' @ quoted ''str''))
      | _ \<Rightarrow>
          Inl (PyExc ''TypeError'' (quoted (type_name v) @ '' object is not subscriptable'')))"

text \<open>
  \<open>for x in v\<close>: a list gives its items, a dict its keys, a string its characters; null,
  booleans and numbers are not iterable.
\<close>

definition py_iter :: "json \<Rightarrow> pyexc + json list" where
  "py_iter v =
     (case v of
        JArray xs \<Rightarrow> Inr xs
      | JObject kvs \<Rightarrow> Inr (map (\<lambda>kv. JString (fst kv)) kvs)
      | JString s \<Rightarrow> Inr (map (\<lambda>c. JString [c]) s)
      | _ \<Rightarrow> Inl (PyExc ''TypeError'' (quoted (type_name v) @ '' object is not iterable'')))"

text \<open>A value inside an f-string: a string stands for itself, anything else by \<open>str()\<close>.\<close>

definition format_value :: "('v, 'f) world \<Rightarrow> json \<Rightarrow> string" where
  "format_value w v = (case v of JString s \<Rightarrow> s | _ \<Rightarrow> py_str w v)"

section \<open>The completion call and the prompts\<close>

text \<open>
  \<open>ai_model.generate_content(prompt)\<close>: with \<open>ai_model = None\<close> the attribute access raises
  an AttributeError.
\<close>

definition generate_content :: "('v, 'f) world \<Rightarrow> string \<Rightarrow> pyexc + (pyexc + string)" where
  "generate_content w prompt =
     (case ai_model w of
        None \<Rightarrow>
          Inl (PyExc ''AttributeError''
                 (quoted ''NoneType'' @ '' object has no attribute ''
                  @ quoted ''generate_content''))
      | Some g \<Rightarrow> g prompt)"

definition select_dtypes :: "dtype list \<Rightarrow> 'v dataframe \<Rightarrow> string list" where
  "select_dtypes include df = map fst (filter (\<lambda>c. snd c \<in> set include) (columns df))"

definition data_summary :: "('v, 'f) world \<Rightarrow> 'v dataframe \<Rightarrow> string" where
  "data_summary w df =
     ''Dataset has '' @ str_nat (length (rows df)) @ '' rows, Numerical columns: ''
     @ py_repr w (select_dtypes [Number] df) @ '', Categorical columns: ''
     @ py_repr w (select_dtypes [Object, Category] df)"

definition visuals_prompt :: "('v, 'f) world \<Rightarrow> 'v dataframe \<Rightarrow> string" where
  "visuals_prompt w df =
     ''You are a visualization expert using Plotly Express. ''
     @ ''Based on this summary, provide a JSON list of 3 objects. ''
     @ ''Each object must have '' @ quoted ''title'' @ '' and '' @ quoted ''code''
     @ '' (a single line of Plotly Express code). ''
     @ ''The DataFrame is named '' @ quoted ''df'' @ ''. Dataset Summary: ''
     @ data_summary w df"

definition ask_prompt :: "('v, 'f) world \<Rightarrow> 'v dataframe \<Rightarrow> string \<Rightarrow> string" where
  "ask_prompt w df question =
     ''You are a Python Pandas expert. Given a DataFrame named '' @ quoted ''df''
     @ '' with columns '' @ py_repr w (map fst (columns df))
     @ '', write a single line of Python code to answer: '' @ quoted question
     @ ''. Your code must print the result. No explanation.''"

text \<open>The fence stripping of the two handlers.\<close>

definition clean_json_response :: "string \<Rightarrow> string" where
  "clean_json_response txt = replace ''```'' '''' (replace ''```json'' '''' (strip txt))"

definition clean_python_response :: "string \<Rightarrow> string" where
  "clean_python_response txt = replace ''```'' '''' (replace ''```python'' '''' (strip txt))"

section \<open>Scopes of the generated code\<close>

text \<open>
  The chat handler passes \<open>exec\<close> two dictionary displays: \<open>{'df': df, 'pd': pd}\<close> as globals
  and \<open>{'__builtins__': {}, 'print': ...}\<close> as locals.
\<close>

definition ask_scope :: scope where
  "ask_scope = \<lparr>scope_globals = [''df'', ''pd''], scope_locals = [''__builtins__'', ''print'']\<rparr>"

text \<open>
  The visualization handler calls \<open>eval(chart_info["code"])\<close> with no dictionaries, so the
  expression runs in the handler's own frame: the globals are the names main.py binds at
  module level, the locals are the handler's variables bound when the loop runs (\<open>fig\<close>
  joins them once a first chart is built).
\<close>

definition main_globals :: "string list" where
  "main_globals =
     [''pd'', ''io'', ''px'', ''uuid'', ''os'', ''json'', ''List'', ''FastAPI'', ''File'',
      ''UploadFile'', ''Form'', ''Request'', ''HTMLResponse'', ''RedirectResponse'',
      ''StreamingResponse'', ''genai'', ''load_dotenv'', ''BaseModel'', ''ai_model'', ''app'',
      ''df_cache'', ''ChatQuestion'', ''read_root'', ''get_dashboard'', ''upload_and_process'',
      ''generate_ai_visuals'', ''generate_statistical_report'', ''chat_page'', ''ask_question'']"

definition generate_ai_visuals_locals :: "string list" where
  "generate_ai_visuals_locals =
     [''file_id'', ''df'', ''data_summary'', ''prompt'', ''ai_response'', ''cleaned_response'',
      ''charts_to_generate'', ''all_charts_html'', ''chart_info'']"

definition visuals_scope :: scope where
  "visuals_scope =
     \<lparr>scope_globals = main_globals, scope_locals = generate_ai_visuals_locals\<rparr>"

section \<open>Pages\<close>

definition read_root :: response where
  "read_root = HTMLResponse LandingPage"

definition get_dashboard :: "string \<Rightarrow> 'v cache \<Rightarrow> response" where
  "get_dashboard file_id df_cache =
     (if file_id \<notin> dom df_cache then RedirectResponse ''/'' 307
      else HTMLResponse (DashboardPage file_id))"

definition chat_page :: "string \<Rightarrow> 'v cache \<Rightarrow> response" where
  "chat_page file_id df_cache =
     (if file_id \<notin> dom df_cache then RedirectResponse ''/'' 307
      else HTMLResponse ChatPage)"

text \<open>
  \<open>generate_statistical_report\<close>: the import is the handler's first statement, before the
  look-up of the file id; the report call stands in no \<open>try\<close>.
\<close>

definition generate_statistical_report ::
  "('v, 'f) world \<Rightarrow> string \<Rightarrow> 'v cache \<Rightarrow> response" where
  "generate_statistical_report w file_id df_cache =
     (case import_ProfileReport w of
        Inl e \<Rightarrow> Unhandled e
      | Inr profile \<Rightarrow>
          (case df_cache file_id of
             None \<Rightarrow> RedirectResponse ''/'' 307
           | Some df \<Rightarrow>
               (case profile df of
                  Inl e \<Rightarrow> Unhandled e
                | Inr html \<Rightarrow> HTMLResponse (Markup html))))"

section \<open>AI visualizations\<close>

text \<open>\<open>eval(chart_info["code"])\<close>: \<open>eval\<close> takes a string; any other value is a TypeError.\<close>

definition py_eval ::
  "('v, 'f) world \<Rightarrow> string \<Rightarrow> json \<Rightarrow> 'v cache \<Rightarrow> (pyexc + 'f) \<times> 'v cache" where
  "py_eval w file_id c df_cache =
     (case c of
        JString s \<Rightarrow> eval_code w visuals_scope s file_id df_cache
      | _ \<Rightarrow>
          (Inl (PyExc ''TypeError'' ''eval() arg 1 must be a string, bytes or code object''),
           df_cache))"

text \<open>
  The body of the loop's \<open>try\<close>: look the code up, evaluate it, then build the f-string
  (title first, then the rendered figure). \<open>Inl\<close> is the exception the \<open>except\<close> clause
  receives.
\<close>

definition try_chart ::
  "('v, 'f) world \<Rightarrow> string \<Rightarrow> json \<Rightarrow> 'v cache \<Rightarrow> (pyexc + string) \<times> 'v cache" where
  "try_chart w file_id chart_info df_cache =
     (case getitem chart_info ''code'' of
        Inl e \<Rightarrow> (Inl e, df_cache)
      | Inr c \<Rightarrow>
          (case py_eval w file_id c df_cache of
             (Inl e, cache') \<Rightarrow> (Inl e, cache')
           | (Inr fig, cache') \<Rightarrow>
               (case getitem chart_info ''title'' of
                  Inl e \<Rightarrow> (Inl e, cache')
                | Inr t \<Rightarrow>
                    (case to_html w fig of
                       Inl e \<Rightarrow> (Inl e, cache')
                     | Inr h \<Rightarrow> (Inr (''<h3>'' @ format_value w t @ ''</h3>'' @ h), cache')))))"

text \<open>
  One pass of the loop: the text appended to \<open>all_charts_html\<close>. The \<open>except\<close> clause looks
  the title up again, outside any \<open>try\<close>: \<open>Inl\<close> is an exception that leaves the handler.
\<close>

definition chart_block ::
  "('v, 'f) world \<Rightarrow> string \<Rightarrow> json \<Rightarrow> 'v cache \<Rightarrow> (pyexc + string) \<times> 'v cache" where
  "chart_block w file_id chart_info df_cache =
     (case try_chart w file_id chart_info df_cache of
        (Inr block, cache') \<Rightarrow> (Inr block, cache')
      | (Inl e, cache') \<Rightarrow>
          (case getitem chart_info ''title'' of
             Inl e' \<Rightarrow> (Inl e', cache')
           | Inr t \<Rightarrow>
               (Inr (''<h3>Error generating chart: '' @ format_value w t @ ''</h3><p>''
                     @ exc_str e @ ''</p>''), cache')))"

fun render_charts ::
  "('v, 'f) world \<Rightarrow> string \<Rightarrow> json list \<Rightarrow> string \<Rightarrow> 'v cache
     \<Rightarrow> (pyexc + string) \<times> 'v cache" where
  "render_charts w file_id [] all_charts_html df_cache = (Inr all_charts_html, df_cache)"
| "render_charts w file_id (chart_info # rest) all_charts_html df_cache =
     (case chart_block w file_id chart_info df_cache of
        (Inl e, cache') \<Rightarrow> (Inl e, cache')
      | (Inr block, cache') \<Rightarrow>
          render_charts w file_id rest (all_charts_html @ block) cache')"

text \<open>
  \<open>generate_ai_visuals\<close>. The \<open>except\<close> clause of the first \<open>try\<close> formats
  \<open>ai_response.text\<close>: when \<open>generate_content\<close> raised, \<open>ai_response\<close> is unbound there and
  the clause raises an UnboundLocalError; when the \<open>.text\<close> property raised, it raises
  again. The loop header iterates over whatever value was parsed.
\<close>

definition unbound_ai_response :: pyexc where
  "unbound_ai_response =
     PyExc ''UnboundLocalError''
       (''cannot access local variable '' @ quoted ''ai_response''
        @ '' where it is not associated with a value'')"

definition generate_ai_visuals ::
  "('v, 'f) world \<Rightarrow> string \<Rightarrow> 'v cache \<Rightarrow> response \<times> 'v cache" where
  "generate_ai_visuals w file_id df_cache =
     (case df_cache file_id of
        None \<Rightarrow> (RedirectResponse ''/'' 307, df_cache)
      | Some df \<Rightarrow>
          (case generate_content w (visuals_prompt w df) of
             Inl e \<Rightarrow> (Unhandled unbound_ai_response, df_cache)
           | Inr ai_response \<Rightarrow>
               (case ai_response of
                  Inl e \<Rightarrow> (Unhandled e, df_cache)
                | Inr txt \<Rightarrow>
                    (case json_loads w (clean_json_response txt) of
                       Inl e \<Rightarrow>
                         (HTMLResponse
                            (Markup (''<h1>Error processing AI response.</h1><pre>'' @ txt
                                     @ ''</pre>'')),
                          df_cache)
                     | Inr charts_to_generate \<Rightarrow>
                         (case py_iter charts_to_generate of
                            Inl e \<Rightarrow> (Unhandled e, df_cache)
                          | Inr items \<Rightarrow>
                              (case render_charts w file_id items [] df_cache of
                                 (Inl e, cache') \<Rightarrow> (Unhandled e, cache')
                               | (Inr all_charts_html, cache') \<Rightarrow>
                                   (HTMLResponse
                                      (Markup (''<html><body><h1>AI Visualizations</h1>''
                                               @ all_charts_html @ ''</body></html>'')),
                                    cache')))))))"

section \<open>Chat\<close>

text \<open>
  \<open>ask_question\<close>: an unknown file id is answered with a JSON object, not a redirect. The
  whole of completion call, fence stripping and \<open>exec\<close> stands in one \<open>try\<close>, whose
  \<open>except\<close> clause turns the exception into the answer.
\<close>

definition ask_question ::
  "('v, 'f) world \<Rightarrow> string \<Rightarrow> string \<Rightarrow> 'v cache \<Rightarrow> response \<times> 'v cache" where
  "ask_question w file_id question df_cache =
     (case df_cache file_id of
        None \<Rightarrow> (JSONResponse [(''answer'', ''Session not found.'')], df_cache)
      | Some df \<Rightarrow>
          (case generate_content w (ask_prompt w df question) of
             Inl e \<Rightarrow> (JSONResponse [(''answer'', ''Error: '' @ exc_str e)], df_cache)
           | Inr ai_response \<Rightarrow>
               (case ai_response of
                  Inl e \<Rightarrow> (JSONResponse [(''answer'', ''Error: '' @ exc_str e)], df_cache)
                | Inr txt \<Rightarrow>
                    (case exec_code w ask_scope (clean_python_response txt) file_id df_cache of
                       (Inl e, cache') \<Rightarrow>
                         (JSONResponse [(''answer'', ''Error: '' @ exc_str e)], cache')
                     | (Inr output, cache') \<Rightarrow>
                         (JSONResponse
                            [(''answer'', if output = [] then ''Action performed.'' else output)],
                          cache')))))"

section \<open>Observations on responses and chart lists\<close>

text \<open>A response that redirects to the landing page; an exception that left the handler.\<close>

fun redirects_home :: "response \<Rightarrow> bool" where
  "redirects_home (RedirectResponse url st) = (url = ''/'')"
| "redirects_home r = False"

fun is_unhandled :: "response \<Rightarrow> bool" where
  "is_unhandled (Unhandled e) = True"
| "is_unhandled r = False"

text \<open>\<open>sub in s\<close> on strings: \<open>sub\<close> occurs somewhere in \<open>s\<close>.\<close>

fun substring_of :: "string \<Rightarrow> string \<Rightarrow> bool" where
  "substring_of sub [] = (sub = [])"
| "substring_of sub (c # cs) = (take (length sub) (c # cs) = sub \<or> substring_of sub cs)"








section \<open>A sample session\<close>

text \<open>
  Concrete collaborators on which the theorems below are exercised: a four-row table with
  one incomplete and one repeated row, an interpreter that knows a handful of code lines,
  and a completion model that answers every prompt with a given text.
\<close>

definition demo_csv :: string where
  "demo_csv = ''city,sales'' @ [CHR 0x0A] @ ''Oslo,3'' @ [CHR 0x0A] @ ''Rome,'' @ [CHR 0x0A]
              @ ''Oslo,3'' @ [CHR 0x0A] @ ''Bern,5'' @ [CHR 0x0A]"

definition demo_table :: "string dataframe" where
  "demo_table =
     \<lparr>columns = [(''city'', Object), (''sales'', Number)],
      rows = [[Some ''Oslo'', Some ''3''], [Some ''Rome'', None],
              [Some ''Oslo'', Some ''3''], [Some ''Bern'', Some ''5'']]\<rparr>"

definition demo_clean :: "string dataframe" where
  "demo_clean =
     \<lparr>columns = [(''city'', Object), (''sales'', Number)],
      rows = [[Some ''Oslo'', Some ''3''], [Some ''Bern'', Some ''5'']]\<rparr>"

definition demo_exec ::
  "scope \<Rightarrow> string \<Rightarrow> string \<Rightarrow> string cache \<Rightarrow> (pyexc + string) \<times> string cache" where
  "demo_exec sc code file_id df_cache =
     (case df_cache file_id of
        None \<Rightarrow>
          (Inl (PyExc ''NameError'' (''name '' @ quoted ''df'' @ '' is not defined'')), df_cache)
      | Some df \<Rightarrow>
          if strip code = ''print(len(df))'' then
            (Inr (str_nat (length (rows df)) @ [CHR 0x0A]), df_cache)
          else if strip code = ''print(df.price.sum())'' then
            (Inl (PyExc ''AttributeError''
                    (quoted ''DataFrame'' @ '' object has no attribute '' @ quoted ''price'')),
             df_cache)
          else if strip code = ''df.drop(df.index, inplace=True)'' then
            (Inr [], df_cache(file_id \<mapsto> df\<lparr>rows := []\<rparr>))
          else
            (Inl (PyExc ''SyntaxError'' ''invalid syntax (<string>, line 1)''), df_cache))"

definition demo_eval ::
  "scope \<Rightarrow> string \<Rightarrow> string \<Rightarrow> string cache \<Rightarrow> (pyexc + string) \<times> string cache" where
  "demo_eval sc code file_id df_cache =
     (if code = ''px.bar(df, x='city', y='sales')'' then (Inr ''bar'', df_cache)
      else if code = ''px.histogram(df, x='sales')'' then (Inr ''histogram'', df_cache)
      else (Inl (PyExc ''NameError'' (''name '' @ quoted ''plotly'' @ '' is not defined'')),
            df_cache))"

definition demo_charts_text :: string where
  \<open>demo_charts_text =
     ''[{"title": "Sales by city", "code": "px.bar(df, x='city', y='sales')"}, ''
     @ ''{"title": "Pie", "code": "plotly.pie(df)"}, ''
     @ ''{"title": "Sales", "code": "px.histogram(df, x='sales')"}]''\<close>

definition demo_charts :: json where
  "demo_charts =
     JArray
       [JObject [(''title'', JString ''Sales by city''), (''code'', JString ''px.bar(df, x='city', y='sales')'')],
        JObject [(''title'', JString ''Pie''), (''code'', JString ''plotly.pie(df)'')],
        JObject [(''title'', JString ''Sales''), (''code'', JString ''px.histogram(df, x='sales')'')]]"

definition demo_json_loads :: "string \<Rightarrow> pyexc + json" where
  "demo_json_loads s =
     (if strip s = demo_charts_text then Inr demo_charts
      else Inl (PyExc ''JSONDecodeError'' ''Expecting value: line 1 column 1 (char 0)''))"

text \<open>
  \<open>repr\<close> of a list of plain names (no quote, backslash or control character in them), and
  \<open>str\<close> of the values the sample session formats.
\<close>

fun join_names :: "string list \<Rightarrow> string" where
  "join_names [] = []"
| "join_names [n] = quoted n"
| "join_names (n # ns) = quoted n @ '', '' @ join_names ns"

definition demo_repr :: "string list \<Rightarrow> string" where
  "demo_repr names = ''['' @ join_names names @ '']''"

definition demo_str :: "json \<Rightarrow> string" where
  "demo_str v =
     (case v of
        JNull \<Rightarrow> ''None''
      | JBool b \<Rightarrow> (if b then ''True'' else ''False'')
      | JFloat f \<Rightarrow> f
      | JString s \<Rightarrow> s
      | _ \<Rightarrow> ''<'' @ type_name v @ ''>'')"

definition demo_world :: "(string, string) world" where
  "demo_world =
     \<lparr>utf8_decode = Inr,
      read_csv = (\<lambda>s. if s = demo_csv then Inr demo_table
                       else Inl (PyExc ''EmptyDataError'' ''No columns to parse from file'')),
      ai_model = None,
      json_loads = demo_json_loads,
      py_str = demo_str,
      py_repr = demo_repr,
      eval_code = demo_eval,
      to_html = (\<lambda>fig. Inr (''<div>'' @ fig @ ''</div>'')),
      exec_code = demo_exec,
      import_ProfileReport = Inr (\<lambda>df. Inr ''<html>profile</html>'')\<rparr>"

definition answering :: "string \<Rightarrow> ('v, 'f) world \<Rightarrow> ('v, 'f) world" where
  "answering txt w = w\<lparr>ai_model := Some (\<lambda>prompt. Inr (Inr txt))\<rparr>"

definition unavailable :: "('v, 'f) world \<Rightarrow> ('v, 'f) world" where
  "unavailable w =
     w\<lparr>ai_model := Some (\<lambda>prompt. Inl (PyExc ''ServiceUnavailable''
                                             ''503 The model is overloaded.''))\<rparr>"

definition without_profiling :: "('v, 'f) world \<Rightarrow> ('v, 'f) world" where
  "without_profiling w =
     w\<lparr>import_ProfileReport :=
         Inl (PyExc ''ModuleNotFoundError'' (''No module named '' @ quoted ''ydata_profiling''))\<rparr>"






definition demo_cache :: "string cache" where
  "demo_cache = [''id-1'' \<mapsto> demo_clean]"

section \<open>Properties\<close>

subsection \<open>Cleaning\<close>

lemma keep_first_set: "set (keep_first seen rs) = set rs - set seen"
  by (induction rs arbitrary: seen) auto

lemma keep_first_distinct: "distinct (keep_first seen rs)"
  by (induction rs arbitrary: seen) (auto simp: keep_first_set)

lemma rows_clean:
  "rows (drop_duplicates (dropna df)) = keep_first [] (filter complete_row (rows df))"
  by (simp add: drop_duplicates_def dropna_def)

lemma columns_clean: "columns (drop_duplicates (dropna df)) = columns df"
  by (simp add: drop_duplicates_def dropna_def)

text \<open>
  Claim C1. Whenever the uploaded bytes decode and parse to a table, the upload answers
  with the redirect to the new dashboard and stores, under the new file id, the parsed
  table cleaned by \<open>dropna\<close> then \<open>drop_duplicates\<close>: the stored rows are pairwise distinct,
  none has a missing cell, and they are exactly the complete rows of the parsed table.
\<close>

theorem upload_caches_cleaned_table:
  assumes "utf8_decode w contents = Inr s" and "read_csv w s = Inr df0"
  shows "upload_and_process w contents file_id df_cache =
           (RedirectResponse (''/dashboard/'' @ file_id) 303,
            df_cache(file_id \<mapsto> drop_duplicates (dropna df0)))
         \<and> distinct (rows (drop_duplicates (dropna df0)))
         \<and> (\<forall>r \<in> set (rows (drop_duplicates (dropna df0))). None \<notin> set r)
         \<and> set (rows (drop_duplicates (dropna df0))) = {r \<in> set (rows df0). None \<notin> set r}"
proof -
  have stored: "upload_and_process w contents file_id df_cache =
                  (RedirectResponse (''/dashboard/'' @ file_id) 303,
                   df_cache(file_id \<mapsto> drop_duplicates (dropna df0)))"
    using assms by (simp add: upload_and_process_def)
  have kept: "set (rows (drop_duplicates (dropna df0))) = {r \<in> set (rows df0). None \<notin> set r}"
    by (auto simp: rows_clean keep_first_set complete_row_def)
  have "distinct (rows (drop_duplicates (dropna df0)))"
    by (simp add: rows_clean keep_first_distinct)
  with stored kept show ?thesis by simp
qed

theorem upload_caches_cleaned_table_witness:
  "utf8_decode demo_world demo_csv = Inr demo_csv
   \<and> read_csv demo_world demo_csv = Inr demo_table
   \<and> upload_and_process demo_world demo_csv ''id-1'' Map.empty =
       (RedirectResponse ''/dashboard/id-1'' 303, [''id-1'' \<mapsto> demo_clean])"
proof -
  have d: "utf8_decode demo_world demo_csv = Inr demo_csv"
    by (simp add: demo_world_def)
  have r: "read_csv demo_world demo_csv = Inr demo_table"
    by (simp add: demo_world_def)
  have c: "drop_duplicates (dropna demo_table) = demo_clean"
    by (simp add: drop_duplicates_def dropna_def demo_table_def demo_clean_def complete_row_def)
  show ?thesis
    using upload_caches_cleaned_table [OF d r, of "''id-1''" Map.empty] d r c by simp
qed

subsection \<open>The sample session, evaluated\<close>

lemma gen_answering: "generate_content (answering txt w) prompt = Inr (Inr txt)"
  by (simp add: generate_content_def answering_def)

lemma demo_cache_id1: "demo_cache ''id-1'' = Some demo_clean"
  by (simp add: demo_cache_def)



lemma clean_drop:
  "clean_python_response ''df.drop(df.index, inplace=True)''
     = ''df.drop(df.index, inplace=True)''"
  by (simp add: clean_python_response_def strip_def py_isspace_def replace_def)



lemma exec_drop:
  "exec_code (answering t demo_world) ask_scope
     (clean_python_response ''df.drop(df.index, inplace=True)'') ''id-1'' demo_cache
   = (Inr [], demo_cache(''id-1'' \<mapsto> demo_clean\<lparr>rows := []\<rparr>))"
  by (simp add: clean_drop answering_def demo_world_def demo_exec_def strip_def py_isspace_def
      demo_cache_def)

subsection \<open>Unknown sessions\<close>

text \<open>
  Claim C2, as stated, fails: for a file id that is not in the cache the ask endpoint
  answers with the JSON object \<open>{"answer": "Session not found."}\<close>, which is no redirect;
  and the statistical report imports its library before it looks the id up, so a failing
  import leaves the handler.
\<close>

theorem unknown_session_counterexample:
  "''nope'' \<notin> dom demo_cache
   \<and> fst (ask_question demo_world ''nope'' ''How many rows are there?'' demo_cache)
       = JSONResponse [(''answer'', ''Session not found.'')]
   \<and> \<not> redirects_home
         (fst (ask_question demo_world ''nope'' ''How many rows are there?'' demo_cache))
   \<and> is_unhandled
       (generate_statistical_report (without_profiling demo_world) ''nope'' demo_cache)"
  by (simp add: demo_cache_def ask_question_def generate_statistical_report_def
      without_profiling_def)

text \<open>
  Claim C2, amended. For every file id that is not in the cache: the dashboard, the AI
  visuals and the chat page answer with a redirect to the landing page; the statistical
  report does so once its import of the report library has succeeded; the ask endpoint
  answers with the JSON object whose answer is \<open>Session not found.\<close>; and the cache is
  left as it was.
\<close>

theorem unknown_session_responses:
  assumes "file_id \<notin> dom df_cache"
  shows "get_dashboard file_id df_cache = RedirectResponse ''/'' 307
         \<and> generate_ai_visuals w file_id df_cache = (RedirectResponse ''/'' 307, df_cache)
         \<and> chat_page file_id df_cache = RedirectResponse ''/'' 307
         \<and> (\<forall>profile. import_ProfileReport w = Inr profile \<longrightarrow>
               generate_statistical_report w file_id df_cache = RedirectResponse ''/'' 307)
         \<and> ask_question w file_id question df_cache
             = (JSONResponse [(''answer'', ''Session not found.'')], df_cache)"
proof -
  from assms have none: "df_cache file_id = None"
    by (simp add: domIff)
  have "get_dashboard file_id df_cache = RedirectResponse ''/'' 307"
    using assms by (simp add: get_dashboard_def)
  moreover have "generate_ai_visuals w file_id df_cache = (RedirectResponse ''/'' 307, df_cache)"
    using none by (simp add: generate_ai_visuals_def)
  moreover have "chat_page file_id df_cache = RedirectResponse ''/'' 307"
    using assms by (simp add: chat_page_def)
  moreover have "\<forall>profile. import_ProfileReport w = Inr profile \<longrightarrow>
               generate_statistical_report w file_id df_cache = RedirectResponse ''/'' 307"
    using none by (simp add: generate_statistical_report_def)
  moreover have "ask_question w file_id question df_cache
             = (JSONResponse [(''answer'', ''Session not found.'')], df_cache)"
    using none by (simp add: ask_question_def)
  ultimately show ?thesis by simp
qed

theorem unknown_session_responses_witness:
  "''nope'' \<notin> dom demo_cache
   \<and> import_ProfileReport demo_world = Inr (\<lambda>df. Inr ''<html>profile</html>'')
   \<and> get_dashboard ''nope'' demo_cache = RedirectResponse ''/'' 307
   \<and> generate_ai_visuals demo_world ''nope'' demo_cache = (RedirectResponse ''/'' 307, demo_cache)
   \<and> chat_page ''nope'' demo_cache = RedirectResponse ''/'' 307
   \<and> generate_statistical_report demo_world ''nope'' demo_cache = RedirectResponse ''/'' 307
   \<and> ask_question demo_world ''nope'' ''How many rows are there?'' demo_cache
       = (JSONResponse [(''answer'', ''Session not found.'')], demo_cache)"
proof -
  have n: "''nope'' \<notin> dom demo_cache"
    by (simp add: demo_cache_def)
  have i: "import_ProfileReport demo_world = Inr (\<lambda>df. Inr ''<html>profile</html>'')"
    by (simp add: demo_world_def)
  show ?thesis
    using unknown_session_responses [OF n, of demo_world "''How many rows are there?''"] n i
    by simp
qed

subsection \<open>Chat answers\<close>





text \<open>
  Claim C10. When the executed code returns without raising and has printed nothing, the
  answer field is the fixed string \<open>Action performed.\<close>, not the empty string.
\<close>

theorem ask_silent_answer:
  assumes "df_cache file_id = Some df"
    and "generate_content w (ask_prompt w df question) = Inr (Inr txt)"
    and "exec_code w ask_scope (clean_python_response txt) file_id df_cache = (Inr [], cache')"
  shows "fst (ask_question w file_id question df_cache)
           = JSONResponse [(''answer'', ''Action performed.'')]"
  using assms by (simp add: ask_question_def)

theorem ask_silent_answer_witness:
  "demo_cache ''id-1'' = Some demo_clean
   \<and> fst (ask_question (answering ''df.drop(df.index, inplace=True)'' demo_world) ''id-1''
            ''Remove every row'' demo_cache)
       = JSONResponse [(''answer'', ''Action performed.'')]"
  using ask_silent_answer [OF demo_cache_id1 gen_answering exec_drop,
      where question = "''Remove every row''"] demo_cache_id1
  by simp

subsection \<open>Visualization: lemmas\<close>

lemma visuals_prompt_interp [simp]:
  "visuals_prompt (w\<lparr>eval_code := ev, to_html := th\<rparr>) df = visuals_prompt w df"
  by (simp add: visuals_prompt_def data_summary_def)

lemma generate_content_interp [simp]:
  "generate_content (w\<lparr>eval_code := ev, to_html := th\<rparr>) p = generate_content w p"
  by (simp add: generate_content_def)

lemma substring_of_self: "substring_of sub (sub @ b)"
proof (cases "sub @ b")
  case Nil
  then show ?thesis by simp
next
  case (Cons c cs)
  have "take (length sub) (sub @ b) = sub"
    by simp
  with Cons show ?thesis
    by (metis substring_of.simps(2))
qed

lemma substring_of_append: "substring_of sub (a @ sub @ b)"
  by (induction a) (auto simp: substring_of_self)

lemma clean_sorry: "clean_json_response ''Sorry, no charts.'' = ''Sorry, no charts.''"
  by (simp add: clean_json_response_def strip_def py_isspace_def replace_def)

lemma loads_sorry:
  "json_loads (answering t demo_world) (clean_json_response ''Sorry, no charts.'')
     = Inl (PyExc ''JSONDecodeError'' ''Expecting value: line 1 column 1 (char 0)'')"
  by (simp add: clean_sorry answering_def demo_world_def demo_json_loads_def demo_charts_text_def
      strip_def py_isspace_def)











subsection \<open>Visualization: parse errors\<close>

text \<open>
  Claim C4. When the completion arrives and its text, fences stripped, is not valid JSON,
  the visualization endpoint answers with the single error page (the heading and the raw
  completion text) and leaves the cache alone; no chart is evaluated or rendered: the
  response is the same whatever \<open>eval\<close> and \<open>to_html\<close> would do.
\<close>

theorem invalid_json_error_page:
  assumes "df_cache file_id = Some df"
    and "generate_content w (visuals_prompt w df) = Inr (Inr txt)"
    and "json_loads w (clean_json_response txt) = Inl e"
  shows "generate_ai_visuals w file_id df_cache
           = (HTMLResponse (Markup (''<h1>Error processing AI response.</h1><pre>'' @ txt
                                    @ ''</pre>'')), df_cache)
         \<and> (\<forall>ev th. generate_ai_visuals (w\<lparr>eval_code := ev, to_html := th\<rparr>) file_id df_cache
                      = generate_ai_visuals w file_id df_cache)"
  using assms by (simp add: generate_ai_visuals_def)

theorem invalid_json_error_page_witness:
  "demo_cache ''id-1'' = Some demo_clean
   \<and> json_loads (answering ''Sorry, no charts.'' demo_world)
         (clean_json_response ''Sorry, no charts.'')
       = Inl (PyExc ''JSONDecodeError'' ''Expecting value: line 1 column 1 (char 0)'')
   \<and> generate_ai_visuals (answering ''Sorry, no charts.'' demo_world) ''id-1'' demo_cache
       = (HTMLResponse
            (Markup ''<h1>Error processing AI response.</h1><pre>Sorry, no charts.</pre>''),
          demo_cache)"
  using invalid_json_error_page [where df_cache = demo_cache and file_id = "''id-1''",
      OF demo_cache_id1 gen_answering loads_sorry]
    demo_cache_id1 loads_sorry [of "''Sorry, no charts.''"]
  by simp

text \<open>
  Claim C7, as stated, fails twice. On a parse error the error page embeds the raw
  completion text and not the exception's text: for the completion \<open>Sorry, no charts.\<close>
  the parser's message \<open>Expecting value: line 1 column 1 (char 0)\<close> occurs nowhere in the
  page. And when the completion call itself raises, the \<open>except\<close> clause reads the unbound
  \<open>ai_response\<close> and an UnboundLocalError leaves the handler.
\<close>

theorem visuals_error_counterexample:
  "json_loads (answering ''Sorry, no charts.'' demo_world) (clean_json_response ''Sorry, no charts.'')
     = Inl (PyExc ''JSONDecodeError'' ''Expecting value: line 1 column 1 (char 0)'')
   \<and> fst (generate_ai_visuals (answering ''Sorry, no charts.'' demo_world) ''id-1'' demo_cache)
       = HTMLResponse (Markup ''<h1>Error processing AI response.</h1><pre>Sorry, no charts.</pre>'')
   \<and> \<not> substring_of ''Expecting value: line 1 column 1 (char 0)''
         ''<h1>Error processing AI response.</h1><pre>Sorry, no charts.</pre>''
   \<and> generate_content (unavailable demo_world) (visuals_prompt (unavailable demo_world) demo_clean)
       = Inl (PyExc ''ServiceUnavailable'' ''503 The model is overloaded.'')
   \<and> is_unhandled (fst (generate_ai_visuals (unavailable demo_world) ''id-1'' demo_cache))"
proof -
  have a: "fst (generate_ai_visuals (answering ''Sorry, no charts.'' demo_world) ''id-1'' demo_cache)
       = HTMLResponse (Markup ''<h1>Error processing AI response.</h1><pre>Sorry, no charts.</pre>'')"
    by (simp add: generate_ai_visuals_def demo_cache_id1 gen_answering loads_sorry)
  have b: "\<not> substring_of ''Expecting value: line 1 column 1 (char 0)''
         ''<h1>Error processing AI response.</h1><pre>Sorry, no charts.</pre>''"
    by simp
  have c: "generate_content (unavailable demo_world) p
       = Inl (PyExc ''ServiceUnavailable'' ''503 The model is overloaded.'')" for p
    by (simp add: generate_content_def unavailable_def)
  have d: "is_unhandled (fst (generate_ai_visuals (unavailable demo_world) ''id-1'' demo_cache))"
    by (simp add: generate_ai_visuals_def demo_cache_id1 c)
  show ?thesis using a b c d loads_sorry by simp
qed

text \<open>
  Claim C7, amended. For every parse error of the visualization endpoint (the completion
  arrived and \<open>json.loads\<close> raises on its stripped text), the endpoint returns, with status
  200 and without an unhandled error, an HTML error payload that embeds the raw completion
  text.
\<close>

theorem visuals_parse_error_payload:
  assumes "df_cache file_id = Some df"
    and "generate_content w (visuals_prompt w df) = Inr (Inr txt)"
    and "json_loads w (clean_json_response txt) = Inl e"
  shows "fst (generate_ai_visuals w file_id df_cache)
           = HTMLResponse (Markup (''<h1>Error processing AI response.</h1><pre>'' @ txt
                                   @ ''</pre>''))
         \<and> substring_of txt (''<h1>Error processing AI response.</h1><pre>'' @ txt @ ''</pre>'')
         \<and> status_code (fst (generate_ai_visuals w file_id df_cache)) = 200
         \<and> \<not> is_unhandled (fst (generate_ai_visuals w file_id df_cache))"
  using assms
    substring_of_append [where a = "''<h1>Error processing AI response.</h1><pre>''"
      and b = "''</pre>''"]
  by (simp add: generate_ai_visuals_def)

theorem visuals_parse_error_payload_witness:
  "demo_cache ''id-1'' = Some demo_clean
   \<and> json_loads (answering ''Sorry, no charts.'' demo_world)
         (clean_json_response ''Sorry, no charts.'')
       = Inl (PyExc ''JSONDecodeError'' ''Expecting value: line 1 column 1 (char 0)'')
   \<and> fst (generate_ai_visuals (answering ''Sorry, no charts.'' demo_world) ''id-1'' demo_cache)
       = HTMLResponse
           (Markup ''<h1>Error processing AI response.</h1><pre>Sorry, no charts.</pre>'')
   \<and> substring_of ''Sorry, no charts.''
        ''<h1>Error processing AI response.</h1><pre>Sorry, no charts.</pre>''"
  using visuals_parse_error_payload [where df_cache = demo_cache and file_id = "''id-1''",
      OF demo_cache_id1 gen_answering loads_sorry]
    demo_cache_id1 loads_sorry [of "''Sorry, no charts.''"]
  by simp

subsection \<open>Visualization: the chart loop\<close>



subsection \<open>Generated code: lemmas\<close>




lemma ask_prompt_exec [simp]: "ask_prompt (w\<lparr>exec_code := ex\<rparr>) df q = ask_prompt w df q"
  by (simp add: ask_prompt_def)

lemma generate_content_exec [simp]:
  "generate_content (w\<lparr>exec_code := ex\<rparr>) p = generate_content w p"
  by (simp add: generate_content_def)


lemma visuals_prompt_eval [simp]:
  "visuals_prompt (w\<lparr>eval_code := ev\<rparr>) df = visuals_prompt w df"
  by (simp add: visuals_prompt_def data_summary_def)

lemma generate_content_eval [simp]:
  "generate_content (w\<lparr>eval_code := ev\<rparr>) p = generate_content w p"
  by (simp add: generate_content_def)

lemma format_value_eval [simp]:
  "format_value (w\<lparr>eval_code := ev\<rparr>) v = format_value w v"
  by (cases v) (simp_all add: format_value_def)






subsection \<open>Generated code and the cache\<close>




subsection \<open>Generated code and its scope\<close>




subsection \<open>Further properties of the handlers\<close>

text \<open>
  When the session exists and the completion call itself raises (or no model is
  configured), the ask endpoint answers with \<open>Error: \<close> and the exception's text, and
  leaves the cache as it was.
\<close>

theorem ask_completion_failure_answer:
  assumes "df_cache file_id = Some df"
    and "generate_content w (ask_prompt w df question) = Inl e"
  shows "ask_question w file_id question df_cache
           = (JSONResponse [(''answer'', ''Error: '' @ exc_str e)], df_cache)"
  using assms by (simp add: ask_question_def)

theorem ask_completion_failure_answer_witness:
  "demo_cache ''id-1'' = Some demo_clean
   \<and> generate_content demo_world (ask_prompt demo_world demo_clean ''How many rows are there?'')
       = Inl (PyExc ''AttributeError''
                (quoted ''NoneType'' @ '' object has no attribute '' @ quoted ''generate_content''))
   \<and> ask_question demo_world ''id-1'' ''How many rows are there?'' demo_cache
       = (JSONResponse [(''answer'', ''Error: '' @ quoted ''NoneType''
                                    @ '' object has no attribute '' @ quoted ''generate_content'')],
          demo_cache)"
proof -
  have g: "generate_content demo_world p
       = Inl (PyExc ''AttributeError''
                (quoted ''NoneType'' @ '' object has no attribute '' @ quoted ''generate_content''))"
    for p
    by (simp add: generate_content_def demo_world_def)
  show ?thesis
    using ask_completion_failure_answer [where df_cache = demo_cache and file_id = "''id-1''",
        OF demo_cache_id1 g, where question = "''How many rows are there?''"] demo_cache_id1 g
    by simp
qed

text \<open>
  When the uploaded bytes do not decode, or the decoded text does not parse, the exception
  leaves the upload handler and nothing is stored.
\<close>

theorem upload_failure_stores_nothing:
  assumes "utf8_decode w contents = Inl e
           \<or> (\<exists>s. utf8_decode w contents = Inr s \<and> read_csv w s = Inl e)"
  shows "upload_and_process w contents file_id df_cache = (Unhandled e, df_cache)"
  using assms by (auto simp: upload_and_process_def)

theorem upload_failure_stores_nothing_witness:
  "utf8_decode demo_world [] = Inr []
   \<and> read_csv demo_world [] = Inl (PyExc ''EmptyDataError'' ''No columns to parse from file'')
   \<and> upload_and_process demo_world [] ''id-2'' demo_cache
       = (Unhandled (PyExc ''EmptyDataError'' ''No columns to parse from file''), demo_cache)"
proof -
  have d: "utf8_decode demo_world [] = Inr []"
    by (simp add: demo_world_def)
  have r: "read_csv demo_world [] = Inl (PyExc ''EmptyDataError'' ''No columns to parse from file'')"
    by (simp add: demo_world_def demo_csv_def)
  have h: "utf8_decode demo_world [] = Inl (PyExc ''EmptyDataError'' ''No columns to parse from file'')
           \<or> (\<exists>s. utf8_decode demo_world [] = Inr s
                  \<and> read_csv demo_world s
                      = Inl (PyExc ''EmptyDataError'' ''No columns to parse from file''))"
    using d r by simp
  show ?thesis
    using upload_failure_stores_nothing [OF h, of "''id-2''" demo_cache] d r by simp
qed

end
